theory Spec2Isabelle
  imports Complex_Main
begin

section \<open>JavaScript values as the SDK sees them\<close>

text \<open>
  The registry is whatever \<^verbatim>\<open>JSON.parse\<close> produced (or whatever the caller passed to the
  constructor), so the model is untyped: a value is one of the JSON shapes, or
  \<^verbatim>\<open>undefined\<close>. An object is an association list read with \<open>map_of\<close>. A number
  carries its numeric value; the SDK does no arithmetic and only ever observes whether a
  number is zero.
\<close>

datatype jsval =
    JUndefined
  | JNull
  | JBool bool
  | JNum rat
  | JStr string
  | JArr "jsval list"
  | JObj "(string \<times> jsval) list"

text \<open>
  What the SDK can throw: the engine's \<^verbatim>\<open>TypeError\<close> (reading a property of
  \<^verbatim>\<open>null\<close> or \<^verbatim>\<open>undefined\<close>, calling something that is not a function; its message
  is the engine's own and is not modelled), and \<^verbatim>\<open>new Error(message)\<close>, the only error
  the SDK constructs itself.
\<close>

datatype exn = TypeError | Error string

text \<open>JavaScript truthiness (\<^verbatim>\<open>!v\<close>, \<^verbatim>\<open>a || b\<close>, \<^verbatim>\<open>a && b\<close>, \<^verbatim>\<open>c ? x : y\<close>).\<close>

fun truthy :: "jsval \<Rightarrow> bool" where
  "truthy JUndefined = False"
| "truthy JNull = False"
| "truthy (JBool b) = b"
| "truthy (JNum n) = (n \<noteq> 0)"
| "truthy (JStr s) = (s \<noteq> [])"
| "truthy (JArr xs) = True"
| "truthy (JObj fs) = True"

text \<open>
  Property read \<^verbatim>\<open>v.k\<close>. On \<^verbatim>\<open>null\<close> and \<^verbatim>\<open>undefined\<close> it throws; on an object it
  is the own property or \<^verbatim>\<open>undefined\<close>; on every other value it is \<^verbatim>\<open>undefined\<close>.
  The SDK reads only \<^verbatim>\<open>providers\<close>, \<^verbatim>\<open>id\<close>, \<^verbatim>\<open>models\<close>, \<^verbatim>\<open>website\<close>,
  \<^verbatim>\<open>api_config\<close> and \<^verbatim>\<open>auth\<close>, none of which a built-in prototype defines.
\<close>

fun get_prop :: "jsval \<Rightarrow> string \<Rightarrow> exn + jsval" where
  "get_prop JUndefined k = Inl TypeError"
| "get_prop JNull k = Inl TypeError"
| "get_prop (JObj fs) k = Inr (case map_of fs k of None \<Rightarrow> JUndefined | Some v \<Rightarrow> v)"
| "get_prop v k = Inr JUndefined"

text \<open>
  \<^verbatim>\<open>Array.prototype.find\<close>: the first element on which the callback answers true, or
  \<^verbatim>\<open>undefined\<close>; the scan stops at the first hit, and an exception of the callback
  ends it.
\<close>

fun array_find :: "(jsval \<Rightarrow> exn + bool) \<Rightarrow> jsval list \<Rightarrow> exn + jsval" where
  "array_find cb [] = Inr JUndefined"
| "array_find cb (x # xs) =
     (case cb x of
        Inl e \<Rightarrow> Inl e
      | Inr b \<Rightarrow> if b then Inr x else array_find cb xs)"

text \<open>
  The method call \<^verbatim>\<open>v.find(cb)\<close>: only an array has a \<^verbatim>\<open>find\<close> method; on
  \<^verbatim>\<open>undefined\<close> and \<^verbatim>\<open>null\<close> the property read throws, on anything else the call of
  a non-function does.
\<close>

fun call_find :: "jsval \<Rightarrow> (jsval \<Rightarrow> exn + bool) \<Rightarrow> exn + jsval" where
  "call_find (JArr xs) cb = array_find cb xs"
| "call_find v cb = Inl TypeError"

text \<open>
  The callback \<^verbatim>\<open>p => p.id === providerId\<close> for a string \<^verbatim>\<open>providerId\<close>: strict
  equality with a string holds for the same string only.
\<close>

definition id_equals :: "string \<Rightarrow> jsval \<Rightarrow> exn + bool" where
  "id_equals providerId p =
     (case get_prop p ''id'' of
        Inl e \<Rightarrow> Inl e
      | Inr v \<Rightarrow> Inr (v = JStr providerId))"

section \<open>The handle and the module state\<close>

text \<open>An \<^verbatim>\<open>LLMRegistry\<close> object: its one field is \<^verbatim>\<open>this.registry\<close>.\<close>

record handle =
  registry :: jsval

text \<open>
  The state of the module outside any one handle: the module-level variable
  \<^verbatim>\<open>localRegistry\<close> (\<^verbatim>\<open>null\<close> when no local file was loaded), the default instance
  the module exports (\<^verbatim>\<open>module.exports = new LLMRegistry()\<close>), and the lines written
  with \<^verbatim>\<open>console.warn\<close>.
\<close>

record world =
  localRegistry :: jsval
  exported :: handle
  console :: "string list"

definition no_registry_warning :: string where
  "no_registry_warning =
     ''Warning: No local registry found. Please use LLMRegistry.fetch() or provide data in constructor.''"

text \<open>
  \<^verbatim>\<open>constructor(data)\<close>, the same in both copies of the SDK:
  \<^verbatim>\<open>this.registry = data || localRegistry; if (!this.registry) console.warn(...)\<close>.
  A call without argument passes \<open>JUndefined\<close>.
\<close>

definition constructor :: "jsval \<Rightarrow> world \<Rightarrow> handle \<times> world" where
  "constructor data w =
     (let r = (if truthy data then data else localRegistry w) in
      (\<lparr>registry = r\<rparr>,
       if \<not> truthy r then w\<lparr>console := console w @ [no_registry_warning]\<rparr> else w))"

section \<open>The accessors of src/index.js\<close>

definition not_found_message :: "string \<Rightarrow> string" where
  "not_found_message providerId =
     ''Provider with ID '' @ [CHR 0x27] @ providerId @ [CHR 0x27] @ '' not found.''"

text \<open>
  The expression every id-keyed accessor starts with:
  \<^verbatim>\<open>this.registry.providers.find(p => p.id === providerId)\<close>.
\<close>

definition find_provider :: "handle \<Rightarrow> string \<Rightarrow> exn + jsval" where
  "find_provider this providerId =
     (case get_prop (registry this) ''providers'' of
        Inl e \<Rightarrow> Inl e
      | Inr ps \<Rightarrow> call_find ps (id_equals providerId))"

definition getProviders :: "handle \<Rightarrow> exn + jsval" where
  "getProviders this = get_prop (registry this) ''providers''"

definition getProviderModels :: "handle \<Rightarrow> string \<Rightarrow> exn + jsval" where
  "getProviderModels this providerId =
     (case find_provider this providerId of
        Inl e \<Rightarrow> Inl e
      | Inr provider \<Rightarrow>
          if \<not> truthy provider then Inl (Error (not_found_message providerId))
          else (case get_prop provider ''models'' of
                  Inl e \<Rightarrow> Inl e
                | Inr m \<Rightarrow> Inr (if truthy m then m else JArr [])))"

definition getProviderWebsite :: "handle \<Rightarrow> string \<Rightarrow> exn + jsval" where
  "getProviderWebsite this providerId =
     (case find_provider this providerId of
        Inl e \<Rightarrow> Inl e
      | Inr provider \<Rightarrow>
          if \<not> truthy provider then Inl (Error (not_found_message providerId))
          else get_prop provider ''website'')"

definition getProviderAuth :: "handle \<Rightarrow> string \<Rightarrow> exn + jsval" where
  "getProviderAuth this providerId =
     (case find_provider this providerId of
        Inl e \<Rightarrow> Inl e
      | Inr provider \<Rightarrow>
          if \<not> truthy provider then Inl (Error (not_found_message providerId))
          else (case get_prop provider ''api_config'' of
                  Inl e \<Rightarrow> Inl e
                | Inr c \<Rightarrow>
                    if \<not> truthy c then Inr JNull
                    else (case get_prop c ''auth'' of
                            Inl e \<Rightarrow> Inl e
                          | Inr a \<Rightarrow> if truthy a then get_prop c ''auth'' else Inr JNull)))"

section \<open>The accessors of the guarded copy (src/unnamed/part_000)\<close>

definition getProviders_guarded :: "handle \<Rightarrow> exn + jsval" where
  "getProviders_guarded this =
     (if \<not> truthy (registry this) then Inr (JArr [])
      else (case get_prop (registry this) ''providers'' of
              Inl e \<Rightarrow> Inl e
            | Inr ps \<Rightarrow> if truthy ps then get_prop (registry this) ''providers'' else Inr (JArr [])))"

definition getProviderModels_guarded :: "handle \<Rightarrow> string \<Rightarrow> exn + jsval" where
  "getProviderModels_guarded this providerId =
     (if \<not> truthy (registry this) then Inr (JArr [])
      else getProviderModels this providerId)"

definition getProviderWebsite_guarded :: "handle \<Rightarrow> string \<Rightarrow> exn + jsval" where
  "getProviderWebsite_guarded this providerId =
     (if \<not> truthy (registry this) then Inr JNull
      else getProviderWebsite this providerId)"

definition getProviderAuth_guarded :: "handle \<Rightarrow> string \<Rightarrow> exn + jsval" where
  "getProviderAuth_guarded this providerId =
     (if \<not> truthy (registry this) then Inr JNull
      else getProviderAuth this providerId)"

text \<open>
  In each guarded accessor the lines after the guard are the lines of the accessor of
  src/index.js, character for character, so the definitions above continue with that
  accessor.
\<close>

section \<open>The remote fetch\<close>

text \<open>
  What the transport does is the environment's business. For \<^verbatim>\<open>https.get\<close> the SDK
  registers a response callback with \<^verbatim>\<open>data\<close> and \<^verbatim>\<open>end\<close> listeners and an
  \<^verbatim>\<open>error\<close> listener on the request, and on nothing else. What can happen: the call
  itself throws (an invalid URL); the request emits \<^verbatim>\<open>error\<close>; a response arrives
  with a status code and its body in chunks, up to \<^verbatim>\<open>end\<close>; a response arrives with a
  status code and some chunks and is cut off before \<^verbatim>\<open>end\<close> (the response then emits
  events nobody listens to); or no event ever comes. For the global \<^verbatim>\<open>fetch\<close>: its
  promise rejects with a message; it yields a response with a status whose body is read
  to the end as a text; it yields a response whose body fails while
  \<^verbatim>\<open>response.json()\<close> reads it, which rejects with a message; it yields a response
  whose body never ends; or its promise never settles.
\<close>

datatype https_outcome =
    GetThrows
  | RequestError string
  | Response nat "string list"
  | Unfinished nat "string list"
  | NoEvent

datatype fetch_outcome =
    FetchRejects string
  | FetchResponse nat string
  | FetchBodyFails nat string
  | FetchBodyUnfinished nat
  | FetchPending

text \<open>
  \<^verbatim>\<open>JSON.parse\<close> is the engine's: it is a parameter, answering the parsed value or the
  message of its \<^verbatim>\<open>SyntaxError\<close>. \<^verbatim>\<open>response.json()\<close> parses the body text with the
  same parser. \<open>has_fetch\<close> is \<^verbatim>\<open>typeof fetch === 'function'\<close>, \<open>has_require\<close> is
  \<^verbatim>\<open>typeof require !== 'undefined'\<close>.
\<close>

record env =
  has_fetch :: bool
  has_require :: bool
  native_fetch :: "string \<Rightarrow> fetch_outcome"
  https_get :: "string \<Rightarrow> https_outcome"
  JSON_parse :: "string \<Rightarrow> string + jsval"

text \<open>The promise \<^verbatim>\<open>fetch\<close> returns: settled one way or the other, or pending for ever.\<close>

datatype promise = Resolved handle | Rejected exn | Pending

definition default_url :: string where
  "default_url = ''https://raw.githubusercontent.com/lone-yu-cmd/LLM-List/main/llm_registry.json''"

text \<open>The default parameter \<^verbatim>\<open>url = '...'\<close>: a call without argument passes \<open>None\<close>.\<close>

definition url_or_default :: "string option \<Rightarrow> string" where
  "url_or_default url = (case url of None \<Rightarrow> default_url | Some u \<Rightarrow> u)"

text \<open>A number in a template literal: its decimal digits.\<close>

fun decimal :: "nat \<Rightarrow> string" where
  "decimal n =
     (if n < 10 then [''0123456789'' ! n]
      else decimal (n div 10) @ [''0123456789'' ! (n mod 10)])"

text \<open>\<^verbatim>\<open>response.ok\<close> of the Fetch standard: the status is in the range 200 to 299.\<close>

definition response_ok :: "nat \<Rightarrow> bool" where
  "response_ok status = (200 \<le> status \<and> status \<le> 299)"

text \<open>
  The \<^verbatim>\<open>end\<close> listener, the same in both copies:
  \<^verbatim>\<open>try { resolve(new LLMRegistry(JSON.parse(data))) } catch (error) { reject(...) }\<close>.
\<close>

definition on_end :: "env \<Rightarrow> string \<Rightarrow> world \<Rightarrow> promise \<times> world" where
  "on_end e data w =
     (case JSON_parse e data of
        Inl m \<Rightarrow> (Rejected (Error (''Failed to parse registry JSON: '' @ m)), w)
      | Inr json \<Rightarrow> (case constructor json w of (h, w') \<Rightarrow> (Resolved h, w')))"

text \<open>
  \<^verbatim>\<open>static async fetch(url = default)\<close> of src/index.js. The response callback does
  not look at the status code: it appends every chunk to \<^verbatim>\<open>data\<close> and parses at
  \<^verbatim>\<open>end\<close>.
\<close>

definition fetch :: "env \<Rightarrow> string option \<Rightarrow> world \<Rightarrow> promise \<times> world" where
  "fetch e url w =
     (case https_get e (url_or_default url) of
        GetThrows \<Rightarrow> (Rejected TypeError, w)
      | RequestError m \<Rightarrow> (Rejected (Error (''Failed to fetch registry: '' @ m)), w)
      | Response status chunks \<Rightarrow> on_end e (concat chunks) w
      | Unfinished status chunks \<Rightarrow> (Pending, w)
      | NoEvent \<Rightarrow> (Pending, w))"

text \<open>
  \<^verbatim>\<open>static async fetch(url = default)\<close> of the guarded copy: the global \<^verbatim>\<open>fetch\<close>
  first, with every failure inside the \<^verbatim>\<open>try\<close> rethrown as
  \<^verbatim>\<open>Failed to fetch registry: ...\<close>; else the \<^verbatim>\<open>https\<close> module, which rejects
  every status but 200 before reading the body; else an error.
\<close>

definition fetch_guarded :: "env \<Rightarrow> string option \<Rightarrow> world \<Rightarrow> promise \<times> world" where
  "fetch_guarded e url w =
     (if has_fetch e then
        (case native_fetch e (url_or_default url) of
           FetchRejects m \<Rightarrow> (Rejected (Error (''Failed to fetch registry: '' @ m)), w)
         | FetchResponse status body \<Rightarrow>
             if \<not> response_ok status then
               (Rejected (Error (''Failed to fetch registry: '' @
                                 (''HTTP error! status: '' @ decimal status))), w)
             else (case JSON_parse e body of
                     Inl m \<Rightarrow> (Rejected (Error (''Failed to fetch registry: '' @ m)), w)
                   | Inr json \<Rightarrow> (case constructor json w of (h, w') \<Rightarrow> (Resolved h, w')))
         | FetchBodyFails status m \<Rightarrow>
             if \<not> response_ok status then
               (Rejected (Error (''Failed to fetch registry: '' @
                                 (''HTTP error! status: '' @ decimal status))), w)
             else (Rejected (Error (''Failed to fetch registry: '' @ m)), w)
         | FetchBodyUnfinished status \<Rightarrow>
             if \<not> response_ok status then
               (Rejected (Error (''Failed to fetch registry: '' @
                                 (''HTTP error! status: '' @ decimal status))), w)
             else (Pending, w)
         | FetchPending \<Rightarrow> (Pending, w))
      else if has_require e then
        (case https_get e (url_or_default url) of
           GetThrows \<Rightarrow> (Rejected TypeError, w)
         | RequestError m \<Rightarrow> (Rejected (Error (''Failed to fetch registry: '' @ m)), w)
         | Response status chunks \<Rightarrow>
             if status \<noteq> 200 then
               (Rejected (Error (''HTTP error! status: '' @ decimal status)), w)
             else on_end e (concat chunks) w
         | Unfinished status chunks \<Rightarrow>
             if status \<noteq> 200 then
               (Rejected (Error (''HTTP error! status: '' @ decimal status)), w)
             else (Pending, w)
         | NoEvent \<Rightarrow> (Pending, w))
      else
        (Rejected (Error
           ''Environment not supported: global fetch and https module are both unavailable.''), w))"

section \<open>The accessors on the heap\<close>

text \<open>
  Whether an accessor changes the document is a question about objects in memory, so here
  the accessors are read once more over an explicit heap. A variable holds a primitive
  or a reference; an array and an object are cells of the heap, addressed by their
  position. The \<^verbatim>\<open>LLMRegistry\<close> instance is itself an object cell with the one
  property \<^verbatim>\<open>registry\<close>.
\<close>

datatype ref_val =
    RUndefined
  | RNull
  | RBool bool
  | RNum rat
  | RStr string
  | RRef nat

datatype cell =
    ArrayCell "ref_val list"
  | ObjectCell "(string \<times> ref_val) list"

type_synonym heap = "cell list"

text \<open>The cell at an address; a reference the program holds always has one.\<close>

definition cell_at :: "heap \<Rightarrow> nat \<Rightarrow> cell option" where
  "cell_at h a = (if a < length h then Some (h ! a) else None)"

fun truthy_ref :: "ref_val \<Rightarrow> bool" where
  "truthy_ref RUndefined = False"
| "truthy_ref RNull = False"
| "truthy_ref (RBool b) = b"
| "truthy_ref (RNum n) = (n \<noteq> 0)"
| "truthy_ref (RStr s) = (s \<noteq> [])"
| "truthy_ref (RRef a) = True"

text \<open>
  Property read \<^verbatim>\<open>v.k\<close> on the heap, with the cases of \<open>get_prop\<close>: it throws on
  \<^verbatim>\<open>null\<close> and \<^verbatim>\<open>undefined\<close>, answers the own property of an object cell, and
  \<^verbatim>\<open>undefined\<close> everywhere else. The cells hold plain data, as \<^verbatim>\<open>JSON.parse\<close>
  builds it: a property is a stored value, there are no getters, so a read runs no code
  and is a function of the heap.
\<close>

fun read_prop :: "heap \<Rightarrow> ref_val \<Rightarrow> string \<Rightarrow> exn + ref_val" where
  "read_prop h RUndefined k = Inl TypeError"
| "read_prop h RNull k = Inl TypeError"
| "read_prop h (RRef a) k =
     (case cell_at h a of
        Some (ObjectCell fs) \<Rightarrow> Inr (case map_of fs k of None \<Rightarrow> RUndefined | Some v \<Rightarrow> v)
      | _ \<Rightarrow> Inr RUndefined)"
| "read_prop h v k = Inr RUndefined"

fun array_find_ref :: "(ref_val \<Rightarrow> exn + bool) \<Rightarrow> ref_val list \<Rightarrow> exn + ref_val" where
  "array_find_ref cb [] = Inr RUndefined"
| "array_find_ref cb (x # xs) =
     (case cb x of
        Inl e \<Rightarrow> Inl e
      | Inr b \<Rightarrow> if b then Inr x else array_find_ref cb xs)"

fun call_find_ref :: "heap \<Rightarrow> ref_val \<Rightarrow> (ref_val \<Rightarrow> exn + bool) \<Rightarrow> exn + ref_val" where
  "call_find_ref h (RRef a) cb =
     (case cell_at h a of
        Some (ArrayCell xs) \<Rightarrow> array_find_ref cb xs
      | _ \<Rightarrow> Inl TypeError)"
| "call_find_ref h v cb = Inl TypeError"

definition id_equals_ref :: "heap \<Rightarrow> string \<Rightarrow> ref_val \<Rightarrow> exn + bool" where
  "id_equals_ref h providerId p =
     (case read_prop h p ''id'' of
        Inl e \<Rightarrow> Inl e
      | Inr v \<Rightarrow> Inr (v = RStr providerId))"

text \<open>
  The array literal \<^verbatim>\<open>[]\<close> makes a new cell at the end of the heap. It is the only
  thing in the accessor bodies that touches the heap: they contain no assignment and call
  no mutating method.
\<close>

definition new_array :: "heap \<Rightarrow> ref_val \<times> heap" where
  "new_array h = (RRef (length h), h @ [ArrayCell []])"

text \<open>The accessors of src/index.js, statement by statement, with the heap they leave.\<close>

definition find_provider_on_heap :: "ref_val \<Rightarrow> string \<Rightarrow> heap \<Rightarrow> exn + ref_val" where
  "find_provider_on_heap this providerId h =
     (case read_prop h this ''registry'' of
        Inl e \<Rightarrow> Inl e
      | Inr r \<Rightarrow>
          (case read_prop h r ''providers'' of
             Inl e \<Rightarrow> Inl e
           | Inr ps \<Rightarrow> call_find_ref h ps (id_equals_ref h providerId)))"

definition getProviders_on_heap :: "ref_val \<Rightarrow> heap \<Rightarrow> (exn + ref_val) \<times> heap" where
  "getProviders_on_heap this h =
     (case read_prop h this ''registry'' of
        Inl e \<Rightarrow> (Inl e, h)
      | Inr r \<Rightarrow> (read_prop h r ''providers'', h))"

definition getProviderModels_on_heap ::
  "ref_val \<Rightarrow> string \<Rightarrow> heap \<Rightarrow> (exn + ref_val) \<times> heap" where
  "getProviderModels_on_heap this providerId h =
     (case find_provider_on_heap this providerId h of
        Inl e \<Rightarrow> (Inl e, h)
      | Inr provider \<Rightarrow>
          if \<not> truthy_ref provider then (Inl (Error (not_found_message providerId)), h)
          else (case read_prop h provider ''models'' of
                  Inl e \<Rightarrow> (Inl e, h)
                | Inr m \<Rightarrow>
                    if truthy_ref m then (Inr m, h)
                    else (case new_array h of (a, h') \<Rightarrow> (Inr a, h'))))"

definition getProviderWebsite_on_heap ::
  "ref_val \<Rightarrow> string \<Rightarrow> heap \<Rightarrow> (exn + ref_val) \<times> heap" where
  "getProviderWebsite_on_heap this providerId h =
     (case find_provider_on_heap this providerId h of
        Inl e \<Rightarrow> (Inl e, h)
      | Inr provider \<Rightarrow>
          if \<not> truthy_ref provider then (Inl (Error (not_found_message providerId)), h)
          else (read_prop h provider ''website'', h))"

definition getProviderAuth_on_heap ::
  "ref_val \<Rightarrow> string \<Rightarrow> heap \<Rightarrow> (exn + ref_val) \<times> heap" where
  "getProviderAuth_on_heap this providerId h =
     (case find_provider_on_heap this providerId h of
        Inl e \<Rightarrow> (Inl e, h)
      | Inr provider \<Rightarrow>
          if \<not> truthy_ref provider then (Inl (Error (not_found_message providerId)), h)
          else (case read_prop h provider ''api_config'' of
                  Inl e \<Rightarrow> (Inl e, h)
                | Inr c \<Rightarrow>
                    if \<not> truthy_ref c then (Inr RNull, h)
                    else (case read_prop h c ''auth'' of
                            Inl e \<Rightarrow> (Inl e, h)
                          | Inr a \<Rightarrow>
                              if truthy_ref a then (read_prop h c ''auth'', h)
                              else (Inr RNull, h))))"

text \<open>
  The accessors of the guarded copy. \<^verbatim>\<open>getProviderModels\<close> answers a fresh \<^verbatim>\<open>[]\<close>
  when \<^verbatim>\<open>this.registry\<close> is falsy, the other two \<^verbatim>\<open>null\<close>; after the guard each
  goes on as in src/index.js.
\<close>

definition getProviders_guarded_on_heap :: "ref_val \<Rightarrow> heap \<Rightarrow> (exn + ref_val) \<times> heap" where
  "getProviders_guarded_on_heap this h =
     (case read_prop h this ''registry'' of
        Inl e \<Rightarrow> (Inl e, h)
      | Inr r \<Rightarrow>
          if \<not> truthy_ref r then (case new_array h of (a, h') \<Rightarrow> (Inr a, h'))
          else (case read_prop h r ''providers'' of
                  Inl e \<Rightarrow> (Inl e, h)
                | Inr ps \<Rightarrow>
                    if truthy_ref ps then (read_prop h r ''providers'', h)
                    else (case new_array h of (a, h') \<Rightarrow> (Inr a, h'))))"

definition getProviderModels_guarded_on_heap ::
  "ref_val \<Rightarrow> string \<Rightarrow> heap \<Rightarrow> (exn + ref_val) \<times> heap" where
  "getProviderModels_guarded_on_heap this providerId h =
     (case read_prop h this ''registry'' of
        Inl e \<Rightarrow> (Inl e, h)
      | Inr r \<Rightarrow>
          if \<not> truthy_ref r then (case new_array h of (a, h') \<Rightarrow> (Inr a, h'))
          else getProviderModels_on_heap this providerId h)"

definition getProviderWebsite_guarded_on_heap ::
  "ref_val \<Rightarrow> string \<Rightarrow> heap \<Rightarrow> (exn + ref_val) \<times> heap" where
  "getProviderWebsite_guarded_on_heap this providerId h =
     (case read_prop h this ''registry'' of
        Inl e \<Rightarrow> (Inl e, h)
      | Inr r \<Rightarrow>
          if \<not> truthy_ref r then (Inr RNull, h)
          else getProviderWebsite_on_heap this providerId h)"

definition getProviderAuth_guarded_on_heap ::
  "ref_val \<Rightarrow> string \<Rightarrow> heap \<Rightarrow> (exn + ref_val) \<times> heap" where
  "getProviderAuth_guarded_on_heap this providerId h =
     (case read_prop h this ''registry'' of
        Inl e \<Rightarrow> (Inl e, h)
      | Inr r \<Rightarrow>
          if \<not> truthy_ref r then (Inr RNull, h)
          else getProviderAuth_on_heap this providerId h)"

text \<open>
  A call of one of the four accessors, and a caller making such calls one after the other
  on the same instance, catching every exception and going on: the results are collected
  in order and each call starts on the heap the one before left.
\<close>

datatype accessor_call =
    GetProviders
  | GetProviderModels string
  | GetProviderWebsite string
  | GetProviderAuth string

fun call :: "ref_val \<Rightarrow> accessor_call \<Rightarrow> heap \<Rightarrow> (exn + ref_val) \<times> heap" where
  "call this GetProviders h = getProviders_on_heap this h"
| "call this (GetProviderModels i) h = getProviderModels_on_heap this i h"
| "call this (GetProviderWebsite i) h = getProviderWebsite_on_heap this i h"
| "call this (GetProviderAuth i) h = getProviderAuth_on_heap this i h"

fun call_guarded ::
  "ref_val \<Rightarrow> accessor_call \<Rightarrow> heap \<Rightarrow> (exn + ref_val) \<times> heap" where
  "call_guarded this GetProviders h = getProviders_guarded_on_heap this h"
| "call_guarded this (GetProviderModels i) h = getProviderModels_guarded_on_heap this i h"
| "call_guarded this (GetProviderWebsite i) h = getProviderWebsite_guarded_on_heap this i h"
| "call_guarded this (GetProviderAuth i) h = getProviderAuth_guarded_on_heap this i h"

fun run_calls ::
  "(ref_val \<Rightarrow> accessor_call \<Rightarrow> heap \<Rightarrow> (exn + ref_val) \<times> heap) \<Rightarrow> ref_val \<Rightarrow>
     accessor_call list \<Rightarrow> heap \<Rightarrow> (exn + ref_val) list \<times> heap" where
  "run_calls f this [] h = ([], h)"
| "run_calls f this (c # cs) h =
     (case f this c h of
        (r, h') \<Rightarrow> (case run_calls f this cs h' of (rs, h'') \<Rightarrow> (r # rs, h'')))"

text \<open>
  What can be seen from a value down to a given depth, as a value of the first model: the
  document is what is seen from \<^verbatim>\<open>this.registry\<close>.
\<close>

fun view :: "nat \<Rightarrow> heap \<Rightarrow> ref_val \<Rightarrow> jsval" where
  "view n h RUndefined = JUndefined"
| "view n h RNull = JNull"
| "view n h (RBool b) = JBool b"
| "view n h (RNum x) = JNum x"
| "view n h (RStr s) = JStr s"
| "view 0 h (RRef a) = JUndefined"
| "view (Suc n) h (RRef a) =
     (case cell_at h a of
        None \<Rightarrow> JUndefined
      | Some (ArrayCell xs) \<Rightarrow> JArr (map (view n h) xs)
      | Some (ObjectCell fs) \<Rightarrow> JObj (map (\<lambda>kv. (fst kv, view n h (snd kv))) fs))"

text \<open>
  A heap is closed when every reference stored in one of its cells is an address of it;
  a value is in range when it is no reference or such an address.
\<close>

fun ref_ok :: "nat \<Rightarrow> ref_val \<Rightarrow> bool" where
  "ref_ok n (RRef a) = (a < n)"
| "ref_ok n v = True"

fun cell_ok :: "nat \<Rightarrow> cell \<Rightarrow> bool" where
  "cell_ok n (ArrayCell xs) = list_all (ref_ok n) xs"
| "cell_ok n (ObjectCell fs) = list_all (\<lambda>kv. ref_ok n (snd kv)) fs"

definition closed_heap :: "heap \<Rightarrow> bool" where
  "closed_heap h = list_all (cell_ok (length h)) h"

section \<open>The data model of the registry document\<close>

text \<open>
  The documents the accessors are written for: an object whose \<^verbatim>\<open>providers\<close> is an
  array of provider objects; a provider has a string \<^verbatim>\<open>id\<close>, and, when present, a
  string \<^verbatim>\<open>website\<close>, an array \<^verbatim>\<open>models\<close> and an object \<^verbatim>\<open>api_config\<close> whose
  \<^verbatim>\<open>auth\<close>, when present, is an object. Provider ids need not be distinct.
\<close>

fun field :: "jsval \<Rightarrow> string \<Rightarrow> jsval" where
  "field (JObj fs) k = (case map_of fs k of None \<Rightarrow> JUndefined | Some v \<Rightarrow> v)"
| "field v k = JUndefined"

fun is_string :: "jsval \<Rightarrow> bool" where
  "is_string (JStr s) = True"
| "is_string v = False"

fun is_array :: "jsval \<Rightarrow> bool" where
  "is_array (JArr xs) = True"
| "is_array v = False"

fun is_object :: "jsval \<Rightarrow> bool" where
  "is_object (JObj fs) = True"
| "is_object v = False"

definition absent_or :: "(jsval \<Rightarrow> bool) \<Rightarrow> jsval \<Rightarrow> bool" where
  "absent_or P v = (if v = JUndefined then True else P v)"

definition wf_api_config :: "jsval \<Rightarrow> bool" where
  "wf_api_config c = (is_object c \<and> absent_or is_object (field c ''auth''))"

definition wf_provider :: "jsval \<Rightarrow> bool" where
  "wf_provider p =
     (is_object p \<and> is_string (field p ''id'') \<and>
      absent_or is_string (field p ''website'') \<and>
      absent_or is_array (field p ''models'') \<and>
      absent_or wf_api_config (field p ''api_config''))"

fun providers :: "jsval \<Rightarrow> jsval list" where
  "providers d = (case field d ''providers'' of JArr ps \<Rightarrow> ps | _ \<Rightarrow> [])"

definition wf_document :: "jsval \<Rightarrow> bool" where
  "wf_document d =
     (is_object d \<and> is_array (field d ''providers'') \<and> list_all wf_provider (providers d))"

text \<open>
  What the accessors are expected to answer for a provider \<open>p\<close> of such a document:
  its \<^verbatim>\<open>models\<close>, or the empty sequence when it has none; its nested
  \<^verbatim>\<open>api_config.auth\<close>, or \<^verbatim>\<open>null\<close> when it has no \<^verbatim>\<open>api_config\<close> or no
  \<^verbatim>\<open>auth\<close> in it.
\<close>

definition models_of :: "jsval \<Rightarrow> jsval" where
  "models_of p = (if field p ''models'' = JUndefined then JArr [] else field p ''models'')"

definition auth_of :: "jsval \<Rightarrow> jsval" where
  "auth_of p =
     (if field (field p ''api_config'') ''auth'' = JUndefined then JNull
      else field (field p ''api_config'') ''auth'')"

section \<open>Example inputs\<close>

text \<open>
  The document of the specification's scenario, with a second provider that has an
  \<^verbatim>\<open>api_config.auth\<close> and neither website nor models.
\<close>

definition example_document :: jsval where
  "example_document =
     JObj [(''providers'', JArr [
       JObj [(''id'', JStr ''openai''),
             (''website'', JStr ''https://openai.com''),
             (''models'', JArr [JObj [(''id'', JStr ''gpt-4''), (''name'', JStr ''GPT-4'')]])],
       JObj [(''id'', JStr ''acme''),
             (''api_config'', JObj [(''auth'', JObj [(''type'', JStr ''bearer'')])])]])]"

text \<open>A document in which two providers share the id \<^verbatim>\<open>a\<close>.\<close>

definition duplicate_document :: jsval where
  "duplicate_document =
     JObj [(''providers'', JArr [
       JObj [(''id'', JStr ''b'')],
       JObj [(''id'', JStr ''a''), (''website'', JStr ''first'')],
       JObj [(''id'', JStr ''a''), (''website'', JStr ''second'')]])]"

text \<open>
  The module state after loading the SDK where no local registry file exists:
  \<^verbatim>\<open>localRegistry\<close> is \<^verbatim>\<open>null\<close>, the exported default instance has no document,
  and its construction has written the warning.
\<close>

definition documentless_world :: world where
  "documentless_world =
     \<lparr>localRegistry = JNull, exported = \<lparr>registry = JNull\<rparr>, console = [no_registry_warning]\<rparr>"

text \<open>
  A stand-in for \<^verbatim>\<open>JSON.parse\<close> in the examples: it parses the one body \<^verbatim>\<open>{}\<close> and
  rejects everything else (the text of an error page among it) with a message.
\<close>

definition stub_parse :: "string \<Rightarrow> string + jsval" where
  "stub_parse s = (if s = ''{}'' then Inr (JObj []) else Inl ''Unexpected token'')"

text \<open>
  A server answering 500 with the JSON body \<^verbatim>\<open>{}\<close>, where the global \<^verbatim>\<open>fetch\<close> is
  absent and \<^verbatim>\<open>require\<close> is there; and a server answering 200 with the cut-off body
  \<^verbatim>\<open>{\<close>, where the global \<^verbatim>\<open>fetch\<close> is there.
\<close>

definition json_error_env :: env where
  "json_error_env =
     \<lparr>has_fetch = False, has_require = True,
      native_fetch = (\<lambda>u. FetchResponse 500 ''{}''),
      https_get = (\<lambda>u. Response 500 [''{'', ''}'']),
      JSON_parse = stub_parse\<rparr>"

definition truncated_body_env :: env where
  "truncated_body_env =
     \<lparr>has_fetch = True, has_require = True,
      native_fetch = (\<lambda>u. FetchResponse 200 ''{''),
      https_get = (\<lambda>u. Response 200 [''{'']),
      JSON_parse = stub_parse\<rparr>"

text \<open>
  A heap with an instance (address 0), its document (1), the provider array (2) and one
  provider without models (3).
\<close>

definition example_heap :: heap where
  "example_heap =
     [ObjectCell [(''registry'', RRef 1)],
      ObjectCell [(''providers'', RRef 2)],
      ArrayCell [RRef 3],
      ObjectCell [(''id'', RStr ''openai''), (''website'', RStr ''https://openai.com'')]]"

section \<open>The label of a parse failure\<close>

text \<open>
  The SDK throws plain \<^verbatim>\<open>Error\<close> objects, told apart by their messages only. The one
  message it reserves for a body that does not parse starts with
  \<^verbatim>\<open>Failed to parse registry JSON: \<close>.
\<close>

definition parse_error_label :: string where
  "parse_error_label = ''Failed to parse registry JSON: ''"

definition is_parse_error :: "exn \<Rightarrow> bool" where
  "is_parse_error x =
     (case x of
        TypeError \<Rightarrow> False
      | Error m \<Rightarrow> take (length parse_error_label) m = parse_error_label)"

section \<open>Reading a well-formed document\<close>

lemma get_prop_object: "is_object p \<Longrightarrow> get_prop p k = Inr (field p k)"
  by (cases p) simp_all

lemma truthy_object: "is_object p \<Longrightarrow> truthy p"
  by (cases p) simp_all

lemma id_equals_object: "is_object p \<Longrightarrow> id_equals i p = Inr (field p ''id'' = JStr i)"
  by (simp add: id_equals_def get_prop_object)

lemma array_find_objects:
  "list_all is_object ps \<Longrightarrow>
   array_find (id_equals i) ps =
     Inr (case List.find (\<lambda>p. field p ''id'' = JStr i) ps of None \<Rightarrow> JUndefined | Some p \<Rightarrow> p)"
  by (induction ps) (simp_all add: id_equals_object)

lemma array_find_first:
  assumes "list_all is_object pre" and "\<forall>q\<in>set pre. field q ''id'' \<noteq> JStr i"
    and "is_object p" and "field p ''id'' = JStr i"
  shows "array_find (id_equals i) (pre @ p # post) = Inr p"
  using assms by (induction pre) (simp_all add: id_equals_object)

lemma wf_provider_object: "wf_provider p \<Longrightarrow> is_object p"
  by (simp add: wf_provider_def)

lemma wf_document_objects: "wf_document d \<Longrightarrow> list_all is_object (providers d)"
  by (simp add: wf_document_def list_all_iff wf_provider_object)

lemma wf_document_get_providers:
  "wf_document d \<Longrightarrow> get_prop d ''providers'' = Inr (JArr (providers d))"
  by (cases d; cases "field d ''providers''") (simp_all add: wf_document_def)

lemma wf_document_truthy: "wf_document d \<Longrightarrow> truthy d"
  by (simp add: wf_document_def truthy_object)

lemma wf_provider_in: "wf_document d \<Longrightarrow> p \<in> set (providers d) \<Longrightarrow> wf_provider p"
  by (simp add: wf_document_def list_all_iff del: providers.simps)

lemma wf_example: "wf_document example_document"
  by (simp add: example_document_def wf_document_def wf_provider_def wf_api_config_def absent_or_def)

lemma wf_duplicate: "wf_document duplicate_document"
  by (simp add: duplicate_document_def wf_document_def wf_provider_def wf_api_config_def absent_or_def)

lemma find_provider_wf:
  assumes "wf_document (registry this)"
  shows "find_provider this i =
     Inr (case List.find (\<lambda>p. field p ''id'' = JStr i) (providers (registry this)) of
            None \<Rightarrow> JUndefined | Some p \<Rightarrow> p)"
  using assms
  by (simp add: find_provider_def wf_document_get_providers wf_document_objects array_find_objects
      del: providers.simps)

lemma find_unique:
  assumes "p \<in> set ps" and "P p" and "\<forall>q\<in>set ps. P q \<longrightarrow> q = p"
  shows "List.find P ps = Some p"
  using assms
proof (induction ps)
  case Nil
  then show ?case by simp
next
  case (Cons a ps)
  show ?case
  proof (cases "P a")
    case True
    with Cons.prems(3) have "a = p" by simp
    with True show ?thesis by simp
  next
    case False
    with Cons.prems(1,2) have "p \<in> set ps" by auto
    moreover from Cons.prems(3) have "\<forall>q\<in>set ps. P q \<longrightarrow> q = p" by simp
    ultimately have "List.find P ps = Some p" using Cons.IH Cons.prems(2) by blast
    with False show ?thesis by simp
  qed
qed

lemma find_first:
  "\<forall>q\<in>set pre. \<not> P q \<Longrightarrow> P p \<Longrightarrow> List.find P (pre @ p # post) = Some p"
  by (induction pre) auto

lemma models_found:
  assumes "wf_provider p"
  shows "(case get_prop p ''models'' of Inl e \<Rightarrow> Inl e
          | Inr m \<Rightarrow> Inr (if truthy m then m else JArr [])) = (Inr (models_of p) :: exn + jsval)"
proof -
  have obj: "is_object p" using assms by (rule wf_provider_object)
  have "absent_or is_array (field p ''models'')" using assms by (simp add: wf_provider_def)
  then have "truthy (field p ''models'') \<longleftrightarrow> field p ''models'' \<noteq> JUndefined"
    by (cases "field p ''models''") (simp_all add: absent_or_def)
  then show ?thesis by (simp add: get_prop_object [OF obj] models_of_def)
qed

lemma auth_found:
  assumes "wf_provider p"
  shows "(case get_prop p ''api_config'' of
            Inl e \<Rightarrow> Inl e
          | Inr c \<Rightarrow>
              if \<not> truthy c then Inr JNull
              else (case get_prop c ''auth'' of
                      Inl e \<Rightarrow> Inl e
                    | Inr a \<Rightarrow> if truthy a then get_prop c ''auth'' else Inr JNull))
         = (Inr (auth_of p) :: exn + jsval)"
proof -
  have obj: "is_object p" using assms by (rule wf_provider_object)
  have c: "absent_or wf_api_config (field p ''api_config'')"
    using assms by (simp add: wf_provider_def)
  show ?thesis
  proof (cases "field p ''api_config'' = JUndefined")
    case True
    then show ?thesis by (simp add: get_prop_object [OF obj] auth_of_def)
  next
    case False
    with c have wc: "wf_api_config (field p ''api_config'')" by (simp add: absent_or_def)
    then have oc: "is_object (field p ''api_config'')" by (simp add: wf_api_config_def)
    from wc have "absent_or is_object (field (field p ''api_config'') ''auth'')"
      by (simp add: wf_api_config_def)
    then have "truthy (field (field p ''api_config'') ''auth'')
                 \<longleftrightarrow> field (field p ''api_config'') ''auth'' \<noteq> JUndefined"
      by (cases "field (field p ''api_config'') ''auth''") (simp_all add: absent_or_def)
    then show ?thesis
      by (simp add: get_prop_object [OF obj] get_prop_object [OF oc] truthy_object [OF oc]
          auth_of_def)
  qed
qed

lemma accessors_found:
  assumes wf: "wf_document (registry this)"
    and f: "List.find (\<lambda>q. field q ''id'' = JStr i) (providers (registry this)) = Some p"
  shows "getProviderModels this i = Inr (models_of p)"
    and "getProviderWebsite this i = Inr (field p ''website'')"
    and "getProviderAuth this i = Inr (auth_of p)"
proof -
  from f have "p \<in> set (providers (registry this))"
    by (auto simp: find_Some_iff simp del: providers.simps)
  with wf have wp: "wf_provider p" by (rule wf_provider_in)
  then have obj: "is_object p" by (rule wf_provider_object)
  have fp: "find_provider this i = Inr p"
    using f by (simp add: find_provider_wf [OF wf] del: providers.simps)
  show "getProviderModels this i = Inr (models_of p)"
    by (simp add: getProviderModels_def fp truthy_object [OF obj] models_found [OF wp])
  show "getProviderWebsite this i = Inr (field p ''website'')"
    by (simp add: getProviderWebsite_def fp truthy_object [OF obj] get_prop_object [OF obj])
  show "getProviderAuth this i = Inr (auth_of p)"
    by (simp add: getProviderAuth_def fp truthy_object [OF obj] auth_found [OF wp])
qed

lemma accessors_not_found:
  assumes wf: "wf_document (registry this)"
    and f: "List.find (\<lambda>q. field q ''id'' = JStr i) (providers (registry this)) = None"
  shows "getProviderModels this i = Inl (Error (not_found_message i))"
    and "getProviderWebsite this i = Inl (Error (not_found_message i))"
    and "getProviderAuth this i = Inl (Error (not_found_message i))"
proof -
  have fp: "find_provider this i = Inr JUndefined"
    using f by (simp add: find_provider_wf [OF wf] del: providers.simps)
  show "getProviderModels this i = Inl (Error (not_found_message i))"
    by (simp add: getProviderModels_def fp)
  show "getProviderWebsite this i = Inl (Error (not_found_message i))"
    by (simp add: getProviderWebsite_def fp)
  show "getProviderAuth this i = Inl (Error (not_found_message i))"
    by (simp add: getProviderAuth_def fp)
qed

lemma guarded_loaded:
  assumes "wf_document (registry this)"
  shows "getProviderModels_guarded this i = getProviderModels this i"
    and "getProviderWebsite_guarded this i = getProviderWebsite this i"
    and "getProviderAuth_guarded this i = getProviderAuth this i"
  using wf_document_truthy [OF assms]
  by (simp_all add: getProviderModels_guarded_def getProviderWebsite_guarded_def
      getProviderAuth_guarded_def)

lemma getProviders_loaded:
  assumes "wf_document (registry this)"
  shows "getProviders this = Inr (JArr (providers (registry this)))"
    and "getProviders_guarded this = Inr (JArr (providers (registry this)))"
  using assms wf_document_truthy [OF assms]
  by (simp_all add: getProviders_def getProviders_guarded_def wf_document_get_providers
      del: providers.simps)

lemma getProviders_guarded_documentless:
  "getProviders_guarded (fst (constructor JUndefined documentless_world)) = Inr (JArr [])"
  by (simp add: getProviders_guarded_def constructor_def documentless_world_def)

lemma find_present:
  assumes "p \<in> set ps" and "P p"
  shows "\<exists>q. List.find P ps = Some q \<and> q \<in> set ps \<and> P q"
proof (cases "List.find P ps")
  case None
  with assms show ?thesis by (auto simp: find_None_iff)
next
  case (Some q)
  then show ?thesis by (auto simp: find_Some_iff)
qed

lemma website_shape: "wf_provider p \<Longrightarrow> field p ''website'' = JUndefined \<or> is_string (field p ''website'')"
  by (auto simp: wf_provider_def absent_or_def split: if_splits)

lemma auth_shape: "wf_provider p \<Longrightarrow> auth_of p = JNull \<or> is_object (auth_of p)"
proof -
  assume wp: "wf_provider p"
  show ?thesis
  proof (cases "field p ''api_config'' = JUndefined")
    case True
    then show ?thesis by (simp add: auth_of_def)
  next
    case False
    with wp have "wf_api_config (field p ''api_config'')"
      by (simp add: wf_provider_def absent_or_def)
    then have "absent_or is_object (field (field p ''api_config'') ''auth'')"
      by (simp add: wf_api_config_def)
    then show ?thesis by (auto simp: auth_of_def absent_or_def split: if_splits)
  qed
qed

section \<open>The constructor, the call sequences and the fetch\<close>

lemma constructor_truthy: "truthy d \<Longrightarrow> constructor d w = (\<lparr>registry = d\<rparr>, w)"
  by (simp add: constructor_def)

lemma fetch_guarded_resolves_only_on_success:
  assumes "fetch_guarded e url w = (Resolved h, w')"
  shows "(has_fetch e \<and>
          (\<exists>status body json. native_fetch e (url_or_default url) = FetchResponse status body \<and>
             response_ok status \<and> JSON_parse e body = Inr json)) \<or>
         (\<not> has_fetch e \<and> has_require e \<and>
          (\<exists>chunks json. https_get e (url_or_default url) = Response 200 chunks \<and>
             JSON_parse e (concat chunks) = Inr json))"
  using assms
  by (auto simp: fetch_guarded_def on_end_def
      split: if_splits fetch_outcome.splits https_outcome.splits sum.splits prod.splits)

lemma fetch_rejected_world:
  assumes "fetch e url w = (Rejected x, w')"
  shows "w' = w"
  using assms
  by (auto simp: fetch_def on_end_def split: https_outcome.splits sum.splits prod.splits)

lemma fetch_guarded_rejected_world:
  assumes "fetch_guarded e url w = (Rejected x, w')"
  shows "w' = w"
  using assms
  by (auto simp: fetch_guarded_def on_end_def
      split: if_splits fetch_outcome.splits https_outcome.splits sum.splits prod.splits)

lemma fetch_keeps_documents:
  "localRegistry (snd (fetch e url w)) = localRegistry w \<and>
   exported (snd (fetch e url w)) = exported w \<and>
   localRegistry (snd (fetch_guarded e url w)) = localRegistry w \<and>
   exported (snd (fetch_guarded e url w)) = exported w"
  by (simp add: fetch_def fetch_guarded_def on_end_def constructor_def Let_def
      split: fetch_outcome.splits https_outcome.splits sum.splits)

lemma connection_failure_rejects:
  "https_get e (url_or_default url) = RequestError m \<Longrightarrow>
     fetch e url w = (Rejected (Error (''Failed to fetch registry: '' @ m)), w)"
  "\<not> has_fetch e \<Longrightarrow> has_require e \<Longrightarrow> https_get e (url_or_default url) = RequestError m \<Longrightarrow>
     fetch_guarded e url w = (Rejected (Error (''Failed to fetch registry: '' @ m)), w)"
  "has_fetch e \<Longrightarrow> native_fetch e (url_or_default url) = FetchRejects m \<Longrightarrow>
     fetch_guarded e url w = (Rejected (Error (''Failed to fetch registry: '' @ m)), w)"
  by (simp_all add: fetch_def fetch_guarded_def)

lemma unfinished_response_pending:
  "https_get e (url_or_default url) = Unfinished status chunks \<Longrightarrow>
     fetch e url w = (Pending, w)"
  "\<not> has_fetch e \<Longrightarrow> has_require e \<Longrightarrow>
   https_get e (url_or_default url) = Unfinished 200 chunks \<Longrightarrow>
     fetch_guarded e url w = (Pending, w)"
  by (simp_all add: fetch_def fetch_guarded_def)

lemma malformed_body_https:
  assumes "JSON_parse e (concat chunks) = Inl m"
  shows "https_get e (url_or_default url) = Response status chunks \<Longrightarrow>
           fetch e url w = (Rejected (Error (parse_error_label @ m)), w)"
    and "\<not> has_fetch e \<Longrightarrow> has_require e \<Longrightarrow>
         https_get e (url_or_default url) = Response 200 chunks \<Longrightarrow>
           fetch_guarded e url w = (Rejected (Error (parse_error_label @ m)), w)"
    and "is_parse_error (Error (parse_error_label @ m))"
  using assms
  by (simp_all add: fetch_def fetch_guarded_def on_end_def parse_error_label_def
      is_parse_error_def)

section \<open>The heap under the accessors\<close>

lemma getProviders_on_heap_extends: "\<exists>ys. snd (getProviders_on_heap this h) = h @ ys"
  by (simp add: getProviders_on_heap_def split: sum.splits)

lemma getProviderModels_on_heap_extends:
  "\<exists>ys. snd (getProviderModels_on_heap this i h) = h @ ys"
  by (simp add: getProviderModels_on_heap_def new_array_def split: sum.splits)

lemma getProviderWebsite_on_heap_extends:
  "\<exists>ys. snd (getProviderWebsite_on_heap this i h) = h @ ys"
  by (simp add: getProviderWebsite_on_heap_def split: sum.splits)

lemma getProviderAuth_on_heap_extends:
  "\<exists>ys. snd (getProviderAuth_on_heap this i h) = h @ ys"
  by (simp add: getProviderAuth_on_heap_def split: sum.splits)

lemma getProviders_guarded_on_heap_extends:
  "\<exists>ys. snd (getProviders_guarded_on_heap this h) = h @ ys"
  by (simp add: getProviders_guarded_on_heap_def new_array_def split: sum.splits)

lemma getProviderModels_guarded_on_heap_extends:
  "\<exists>ys. snd (getProviderModels_guarded_on_heap this i h) = h @ ys"
  by (simp add: getProviderModels_guarded_on_heap_def new_array_def
      getProviderModels_on_heap_extends split: sum.splits)

lemma getProviderWebsite_guarded_on_heap_extends:
  "\<exists>ys. snd (getProviderWebsite_guarded_on_heap this i h) = h @ ys"
  by (simp add: getProviderWebsite_guarded_on_heap_def getProviderWebsite_on_heap_extends
      split: sum.splits)

lemma getProviderAuth_guarded_on_heap_extends:
  "\<exists>ys. snd (getProviderAuth_guarded_on_heap this i h) = h @ ys"
  by (simp add: getProviderAuth_guarded_on_heap_def getProviderAuth_on_heap_extends
      split: sum.splits)

lemma call_extends: "\<exists>ys. snd (call this c h) = h @ ys"
  by (cases c)
    (simp_all add: getProviders_on_heap_extends getProviderModels_on_heap_extends
      getProviderWebsite_on_heap_extends getProviderAuth_on_heap_extends)

lemma call_guarded_extends: "\<exists>ys. snd (call_guarded this c h) = h @ ys"
  by (cases c)
    (simp_all add: getProviders_guarded_on_heap_extends getProviderModels_guarded_on_heap_extends
      getProviderWebsite_guarded_on_heap_extends getProviderAuth_guarded_on_heap_extends)

lemma run_calls_extends:
  assumes step: "\<And>this c h. \<exists>ys. snd (f this c h) = h @ ys"
  shows "\<exists>ys. snd (run_calls f this cs h) = h @ ys"
proof (induction cs arbitrary: h)
  case Nil
  show ?case by simp
next
  case (Cons c cs)
  obtain r h1 where f: "f this c h = (r, h1)" by (cases "f this c h")
  from step [of this c h] f obtain ys where h1: "h1 = h @ ys" by auto
  obtain rs h2 where run: "run_calls f this cs h1 = (rs, h2)"
    by (cases "run_calls f this cs h1")
  from Cons.IH [of h1] run obtain zs where "h2 = h1 @ zs" by auto
  with h1 have "h2 = h @ (ys @ zs)" by simp
  with f run show ?case by simp
qed

lemma cell_at_append: "a < length h \<Longrightarrow> cell_at (h @ ys) a = cell_at h a"
  by (simp add: cell_at_def nth_append)

lemma closed_heap_cell:
  "closed_heap h \<Longrightarrow> a < length h \<Longrightarrow> cell_ok (length h) (h ! a)"
  by (simp add: closed_heap_def list_all_length)

lemma view_append:
  assumes "closed_heap h"
  shows "ref_ok (length h) v \<Longrightarrow> view n (h @ ys) v = view n h v"
proof (induction n arbitrary: v)
  case 0
  show ?case by (cases v) simp_all
next
  case (Suc n)
  show ?case
  proof (cases v)
    case (RRef a)
    with Suc.prems have a: "a < length h" by simp
    have ok: "cell_ok (length h) (h ! a)" by (rule closed_heap_cell [OF assms a])
    show ?thesis
    proof (cases "h ! a")
      case (ArrayCell xs)
      with ok have "\<forall>x\<in>set xs. ref_ok (length h) x" by (simp add: list_all_iff)
      then have "map (view n (h @ ys)) xs = map (view n h) xs"
        by (simp add: Suc.IH)
      with RRef a ArrayCell show ?thesis
        by (simp add: cell_at_append) (simp add: cell_at_def)
    next
      case (ObjectCell fs)
      with ok have "\<forall>kv\<in>set fs. ref_ok (length h) (snd kv)" by (simp add: list_all_iff)
      then have "map (\<lambda>kv. (fst kv, view n (h @ ys) (snd kv))) fs
                   = map (\<lambda>kv. (fst kv, view n h (snd kv))) fs"
        by (simp add: Suc.IH)
      with RRef a ObjectCell show ?thesis
        by (simp add: cell_at_append) (simp add: cell_at_def)
    qed
  qed simp_all
qed

section \<open>The claims\<close>

text \<open>
  Claim C1. \<^verbatim>\<open>getProviders()\<close> returns the provider sequence of a loaded document
  unchanged, and on a handle without document it returns an empty sequence, never an
  error. The first half holds for both copies and so does the second for the guarded copy
  (\<open>getProviders_loaded\<close>, \<open>getProviders_guarded_documentless\<close>). In src/index.js
  the second half fails: the handle that \<^verbatim>\<open>new LLMRegistry()\<close> builds when no local
  registry was loaded has \<^verbatim>\<open>registry = null\<close>, and \<^verbatim>\<open>this.registry.providers\<close>
  throws a \<^verbatim>\<open>TypeError\<close>.
\<close>

theorem getProviders_documentless_throws:
  "getProviders (fst (constructor JUndefined documentless_world)) = Inl TypeError"
  by (simp add: getProviders_def constructor_def documentless_world_def)

text \<open>
  Claim C2. On a loaded document and a provider id that no provider of it carries, each
  of \<^verbatim>\<open>getProviderModels\<close>, \<^verbatim>\<open>getProviderWebsite\<close> and \<^verbatim>\<open>getProviderAuth\<close>, in
  both copies, throws the error \<^verbatim>\<open>Provider with ID '...' not found.\<close>; none returns a
  value.
\<close>

theorem absent_id_not_found:
  assumes "wf_document (registry this)"
    and "\<forall>p\<in>set (providers (registry this)). field p ''id'' \<noteq> JStr i"
  shows "getProviderModels this i = Inl (Error (not_found_message i)) \<and>
         getProviderWebsite this i = Inl (Error (not_found_message i)) \<and>
         getProviderAuth this i = Inl (Error (not_found_message i)) \<and>
         getProviderModels_guarded this i = Inl (Error (not_found_message i)) \<and>
         getProviderWebsite_guarded this i = Inl (Error (not_found_message i)) \<and>
         getProviderAuth_guarded this i = Inl (Error (not_found_message i))"
proof -
  from assms(2)
  have "List.find (\<lambda>q. field q ''id'' = JStr i) (providers (registry this)) = None"
    by (simp add: find_None_iff del: providers.simps)
  then show ?thesis
    by (simp add: accessors_not_found [OF assms(1)] guarded_loaded [OF assms(1)])
qed

theorem absent_id_not_found_witness:
  "wf_document example_document \<and>
   getProviderModels \<lparr>registry = example_document\<rparr> ''nonexistent''
     = Inl (Error (not_found_message ''nonexistent'')) \<and>
   getProviderWebsite_guarded \<lparr>registry = example_document\<rparr> ''nonexistent''
     = Inl (Error (not_found_message ''nonexistent'')) \<and>
   getProviderAuth_guarded \<lparr>registry = example_document\<rparr> ''nonexistent''
     = Inl (Error (not_found_message ''nonexistent''))"
proof -
  have wf: "wf_document (registry \<lparr>registry = example_document\<rparr>)"
    by (simp add: wf_example)
  have absent: "\<forall>p\<in>set (providers (registry \<lparr>registry = example_document\<rparr>)).
                  field p ''id'' \<noteq> JStr ''nonexistent''"
    by (simp add: example_document_def)
  show ?thesis
    using absent_id_not_found [OF wf absent] wf_example by simp
qed

text \<open>
  Claim C10. In the guarded copy, on a handle whose registry is \<^verbatim>\<open>null\<close>,
  \<^verbatim>\<open>getProviderModels\<close> returns an empty sequence and \<^verbatim>\<open>getProviderWebsite\<close> and
  \<^verbatim>\<open>getProviderAuth\<close> return \<^verbatim>\<open>null\<close>, for every id: no not-found error is thrown,
  and the two result shapes differ.
\<close>

theorem guarded_documentless:
  "getProviderModels_guarded \<lparr>registry = JNull\<rparr> i = Inr (JArr []) \<and>
   getProviderWebsite_guarded \<lparr>registry = JNull\<rparr> i = Inr JNull \<and>
   getProviderAuth_guarded \<lparr>registry = JNull\<rparr> i = Inr JNull \<and>
   getProviderModels_guarded \<lparr>registry = JNull\<rparr> i \<noteq> getProviderWebsite_guarded \<lparr>registry = JNull\<rparr> i"
  by (simp add: getProviderModels_guarded_def getProviderWebsite_guarded_def
      getProviderAuth_guarded_def)

text \<open>
  Claim C3. The remote fetch succeeds only on a success status; a connection failure, a
  non-success status and a malformed body each reject. The guarded copy resolves only on
  an ok status (the global \<^verbatim>\<open>fetch\<close>) or on status 200 (\<^verbatim>\<open>https\<close>), see
  \<open>fetch_guarded_resolves_only_on_success\<close>, and both copies reject a connection
  failure (\<open>connection_failure_rejects\<close>). The \<^verbatim>\<open>fetch\<close> of src/index.js never reads
  the status code: whatever the status, a body that parses to a truthy value resolves with
  a handle built from it.
\<close>

theorem fetch_ignores_status:
  assumes "https_get e (url_or_default url) = Response status chunks"
    and "JSON_parse e (concat chunks) = Inr json"
    and "truthy json"
  shows "fetch e url w = (Resolved \<lparr>registry = json\<rparr>, w)"
  using assms by (simp add: fetch_def on_end_def constructor_truthy)

theorem fetch_ignores_status_witness:
  "https_get json_error_env (url_or_default None) = Response 500 [''{'', ''}''] \<and>
   \<not> response_ok 500 \<and>
   fetch json_error_env None documentless_world
     = (Resolved \<lparr>registry = JObj []\<rparr>, documentless_world)"
proof -
  have r: "https_get json_error_env (url_or_default None) = Response 500 [''{'', ''}'']"
    by (simp add: json_error_env_def)
  have p: "JSON_parse json_error_env (concat [''{'', ''}'']) = Inr (JObj [])"
    by (simp add: json_error_env_def stub_parse_def)
  have t: "truthy (JObj [])" by simp
  show ?thesis
    using fetch_ignores_status [OF r p t, of documentless_world] r
    by (simp add: response_ok_def)
qed

text \<open>
  Claim C4. A fetch whose response body is malformed JSON rejects with a parse error and
  leaves the module state as it was. The second half holds throughout
  (\<open>fetch_rejected_world\<close>, \<open>fetch_guarded_rejected_world\<close>), and the first holds
  wherever \<^verbatim>\<open>https\<close> is used (\<open>malformed_body_https\<close>). On the global-\<^verbatim>\<open>fetch\<close>
  path of the guarded copy the first half fails: an ok response whose body does not parse
  is rejected under the label \<^verbatim>\<open>Failed to fetch registry: \<close>, which is not the parse
  label and is word for word what a connection failure with the same message gives.
\<close>

theorem fetch_guarded_relabels_parse_failure:
  assumes "has_fetch e"
    and "native_fetch e (url_or_default url) = FetchResponse status body"
    and "response_ok status"
    and "JSON_parse e body = Inl m"
  shows "fetch_guarded e url w = (Rejected (Error (''Failed to fetch registry: '' @ m)), w) \<and>
         \<not> is_parse_error (Error (''Failed to fetch registry: '' @ m)) \<and>
         fetch_guarded (e\<lparr>native_fetch := (\<lambda>u. FetchRejects m)\<rparr>) url w = fetch_guarded e url w"
  using assms
  by (simp add: fetch_guarded_def is_parse_error_def parse_error_label_def)

theorem fetch_guarded_relabels_parse_failure_witness:
  "has_fetch truncated_body_env \<and>
   native_fetch truncated_body_env (url_or_default None) = FetchResponse 200 ''{'' \<and>
   response_ok 200 \<and>
   JSON_parse truncated_body_env ''{'' = Inl ''Unexpected token'' \<and>
   fetch_guarded truncated_body_env None documentless_world
     = (Rejected (Error ''Failed to fetch registry: Unexpected token''), documentless_world) \<and>
   \<not> is_parse_error (Error ''Failed to fetch registry: Unexpected token'')"
proof -
  have f: "has_fetch truncated_body_env" by (simp add: truncated_body_env_def)
  have r: "native_fetch truncated_body_env (url_or_default None) = FetchResponse 200 ''{''"
    by (simp add: truncated_body_env_def)
  have k: "response_ok 200" by (simp add: response_ok_def)
  have p: "JSON_parse truncated_body_env ''{'' = Inl ''Unexpected token''"
    by (simp add: truncated_body_env_def stub_parse_def)
  show ?thesis
    using fetch_guarded_relabels_parse_failure [OF f r k p, of documentless_world] f r k p
    by simp
qed

text \<open>
  Claim C5. On a loaded document and an id that a provider of it carries,
  \<^verbatim>\<open>getProviderModels\<close> never fails, in either copy: it returns the \<^verbatim>\<open>models\<close> of a
  provider with that id, or the empty sequence when that provider has none; when one
  provider only carries the id, it is that provider's.
\<close>

theorem models_of_present_id:
  assumes wf: "wf_document (registry this)"
    and p: "p \<in> set (providers (registry this))"
    and i: "field p ''id'' = JStr i"
  shows "(\<exists>q\<in>set (providers (registry this)). field q ''id'' = JStr i \<and>
            getProviderModels this i = Inr (models_of q) \<and>
            getProviderModels_guarded this i = Inr (models_of q)) \<and>
         ((\<forall>q\<in>set (providers (registry this)). field q ''id'' = JStr i \<longrightarrow> q = p) \<longrightarrow>
            getProviderModels this i = Inr (models_of p) \<and>
            getProviderModels_guarded this i = Inr (models_of p))"
proof (intro conjI impI)
  from find_present [OF p, of "\<lambda>q. field q ''id'' = JStr i"] i
  obtain q where q: "List.find (\<lambda>q. field q ''id'' = JStr i) (providers (registry this)) = Some q"
    and qs: "q \<in> set (providers (registry this))" and qi: "field q ''id'' = JStr i"
    by blast
  have "getProviderModels this i = Inr (models_of q)"
    by (rule accessors_found(1) [OF wf q])
  then show "\<exists>q\<in>set (providers (registry this)). field q ''id'' = JStr i \<and>
            getProviderModels this i = Inr (models_of q) \<and>
            getProviderModels_guarded this i = Inr (models_of q)"
    using qs qi guarded_loaded(1) [OF wf] by metis
next
  assume u: "\<forall>q\<in>set (providers (registry this)). field q ''id'' = JStr i \<longrightarrow> q = p"
  have f: "List.find (\<lambda>q. field q ''id'' = JStr i) (providers (registry this)) = Some p"
    by (rule find_unique [OF p i u])
  show "getProviderModels this i = Inr (models_of p)"
    by (rule accessors_found(1) [OF wf f])
  then show "getProviderModels_guarded this i = Inr (models_of p)"
    by (simp add: guarded_loaded(1) [OF wf])
qed

theorem models_of_present_id_witness:
  "wf_document example_document \<and>
   getProviderModels \<lparr>registry = example_document\<rparr> ''openai''
     = Inr (JArr [JObj [(''id'', JStr ''gpt-4''), (''name'', JStr ''GPT-4'')]]) \<and>
   getProviderModels_guarded \<lparr>registry = example_document\<rparr> ''acme'' = Inr (JArr [])"
proof -
  let ?h = "\<lparr>registry = example_document\<rparr>"
  let ?openai = "JObj [(''id'', JStr ''openai''),
             (''website'', JStr ''https://openai.com''),
             (''models'', JArr [JObj [(''id'', JStr ''gpt-4''), (''name'', JStr ''GPT-4'')]])]"
  let ?acme = "JObj [(''id'', JStr ''acme''),
             (''api_config'', JObj [(''auth'', JObj [(''type'', JStr ''bearer'')])])]"
  have wf: "wf_document (registry ?h)" by (simp add: wf_example)
  have p1: "?openai \<in> set (providers (registry ?h))" by (simp add: example_document_def)
  have i1: "field ?openai ''id'' = JStr ''openai''" by simp
  have u1: "\<forall>q\<in>set (providers (registry ?h)). field q ''id'' = JStr ''openai'' \<longrightarrow> q = ?openai"
    by (simp add: example_document_def)
  have p2: "?acme \<in> set (providers (registry ?h))" by (simp add: example_document_def)
  have i2: "field ?acme ''id'' = JStr ''acme''" by simp
  have u2: "\<forall>q\<in>set (providers (registry ?h)). field q ''id'' = JStr ''acme'' \<longrightarrow> q = ?acme"
    by (simp add: example_document_def)
  from models_of_present_id [OF wf p1 i1] u1
  have "getProviderModels ?h ''openai'' = Inr (models_of ?openai)" by blast
  moreover from models_of_present_id [OF wf p2 i2] u2
  have "getProviderModels_guarded ?h ''acme'' = Inr (models_of ?acme)" by blast
  ultimately show ?thesis by (simp add: wf_example models_of_def)
qed

text \<open>
  Claim C6. On a loaded document and an id that exactly one provider \<open>p\<close> carries,
  \<^verbatim>\<open>getProviderWebsite\<close> returns the \<^verbatim>\<open>website\<close> of \<open>p\<close>, a string, or
  \<^verbatim>\<open>undefined\<close> when \<open>p\<close> has none; \<^verbatim>\<open>getProviderAuth\<close> returns the nested
  \<^verbatim>\<open>api_config.auth\<close> object of \<open>p\<close>, or \<^verbatim>\<open>null\<close> when \<open>p\<close> has no
  \<^verbatim>\<open>api_config\<close> or no \<^verbatim>\<open>auth\<close> in it. Both copies.
\<close>

theorem website_and_auth_of_present_id:
  assumes wf: "wf_document (registry this)"
    and p: "p \<in> set (providers (registry this))"
    and i: "field p ''id'' = JStr i"
    and u: "\<forall>q\<in>set (providers (registry this)). field q ''id'' = JStr i \<longrightarrow> q = p"
  shows "getProviderWebsite this i = Inr (field p ''website'') \<and>
         getProviderWebsite_guarded this i = Inr (field p ''website'') \<and>
         (field p ''website'' = JUndefined \<or> is_string (field p ''website'')) \<and>
         getProviderAuth this i = Inr (auth_of p) \<and>
         getProviderAuth_guarded this i = Inr (auth_of p) \<and>
         (auth_of p = JNull \<or> is_object (auth_of p))"
proof -
  have f: "List.find (\<lambda>q. field q ''id'' = JStr i) (providers (registry this)) = Some p"
    by (rule find_unique [OF p i u])
  have wp: "wf_provider p" by (rule wf_provider_in [OF wf p])
  show ?thesis
    using accessors_found(2,3) [OF wf f] guarded_loaded(2,3) [OF wf]
      website_shape [OF wp] auth_shape [OF wp]
    by simp
qed

theorem website_and_auth_of_present_id_witness:
  "wf_document example_document \<and>
   getProviderWebsite \<lparr>registry = example_document\<rparr> ''openai'' = Inr (JStr ''https://openai.com'') \<and>
   getProviderAuth_guarded \<lparr>registry = example_document\<rparr> ''openai'' = Inr JNull \<and>
   getProviderWebsite_guarded \<lparr>registry = example_document\<rparr> ''acme'' = Inr JUndefined \<and>
   getProviderAuth \<lparr>registry = example_document\<rparr> ''acme'' = Inr (JObj [(''type'', JStr ''bearer'')])"
proof -
  let ?h = "\<lparr>registry = example_document\<rparr>"
  let ?openai = "JObj [(''id'', JStr ''openai''),
             (''website'', JStr ''https://openai.com''),
             (''models'', JArr [JObj [(''id'', JStr ''gpt-4''), (''name'', JStr ''GPT-4'')]])]"
  let ?acme = "JObj [(''id'', JStr ''acme''),
             (''api_config'', JObj [(''auth'', JObj [(''type'', JStr ''bearer'')])])]"
  have wf: "wf_document (registry ?h)" by (simp add: wf_example)
  have p1: "?openai \<in> set (providers (registry ?h))" by (simp add: example_document_def)
  have i1: "field ?openai ''id'' = JStr ''openai''" by simp
  have u1: "\<forall>q\<in>set (providers (registry ?h)). field q ''id'' = JStr ''openai'' \<longrightarrow> q = ?openai"
    by (simp add: example_document_def)
  have p2: "?acme \<in> set (providers (registry ?h))" by (simp add: example_document_def)
  have i2: "field ?acme ''id'' = JStr ''acme''" by simp
  have u2: "\<forall>q\<in>set (providers (registry ?h)). field q ''id'' = JStr ''acme'' \<longrightarrow> q = ?acme"
    by (simp add: example_document_def)
  show ?thesis
    using website_and_auth_of_present_id [OF wf p1 i1 u1]
      website_and_auth_of_present_id [OF wf p2 i2 u2]
    by (simp add: wf_example auth_of_def)
qed

text \<open>
  Claim C7. The constructor has no failing path. A truthy argument, and so every object,
  becomes the handle's registry as it is; otherwise the registry is \<^verbatim>\<open>localRegistry\<close>;
  and when that is falsy too (\<^verbatim>\<open>null\<close>: nothing was loaded) the handle is built all the
  same and one warning is written to the console.
\<close>

theorem constructor_cases:
  "(is_object d \<longrightarrow> truthy d) \<and>
   (truthy d \<longrightarrow> constructor d w = (\<lparr>registry = d\<rparr>, w)) \<and>
   (\<not> truthy d \<and> truthy (localRegistry w) \<longrightarrow>
      constructor d w = (\<lparr>registry = localRegistry w\<rparr>, w)) \<and>
   (\<not> truthy d \<and> \<not> truthy (localRegistry w) \<longrightarrow>
      constructor d w =
        (\<lparr>registry = localRegistry w\<rparr>, w\<lparr>console := console w @ [no_registry_warning]\<rparr>))"
  by (simp add: constructor_def truthy_object)

theorem constructor_cases_witness:
  "constructor example_document documentless_world
     = (\<lparr>registry = example_document\<rparr>, documentless_world) \<and>
   constructor JUndefined (documentless_world\<lparr>localRegistry := example_document\<rparr>)
     = (\<lparr>registry = example_document\<rparr>, documentless_world\<lparr>localRegistry := example_document\<rparr>) \<and>
   constructor JUndefined documentless_world
     = (\<lparr>registry = JNull\<rparr>,
        documentless_world\<lparr>console := [no_registry_warning, no_registry_warning]\<rparr>)"
proof -
  have t: "truthy example_document" by (simp add: example_document_def)
  have n: "\<not> truthy JUndefined" by simp
  have l: "\<not> truthy (localRegistry documentless_world)" by (simp add: documentless_world_def)
  have l': "truthy (localRegistry (documentless_world\<lparr>localRegistry := example_document\<rparr>))"
    by (simp add: t)
  show ?thesis
    using constructor_cases [of example_document documentless_world]
      constructor_cases [of JUndefined "documentless_world\<lparr>localRegistry := example_document\<rparr>"]
      constructor_cases [of JUndefined documentless_world] t n l l'
    by (simp add: documentless_world_def)
qed

text \<open>
  Claim C8. On a loaded document the lookup of the id-keyed accessors is a scan from the
  front of the provider sequence for the first provider whose \<^verbatim>\<open>id\<close> is the same
  string: it answers what \<open>List.find\<close> answers, and when the sequence is
  \<open>pre @ p # post\<close> with \<open>p\<close> carrying the id and nothing in \<open>pre\<close> carrying it,
  every accessor of both copies answers from \<open>p\<close>, whatever \<open>post\<close> holds.
\<close>

theorem lookup_first_match:
  assumes wf: "wf_document (registry this)"
  shows "find_provider this i =
           Inr (case List.find (\<lambda>q. field q ''id'' = JStr i) (providers (registry this)) of
                  None \<Rightarrow> JUndefined | Some p \<Rightarrow> p) \<and>
         (providers (registry this) = pre @ p # post \<and> field p ''id'' = JStr i \<and>
          (\<forall>q\<in>set pre. field q ''id'' \<noteq> JStr i) \<longrightarrow>
            find_provider this i = Inr p \<and>
            getProviderModels this i = Inr (models_of p) \<and>
            getProviderWebsite this i = Inr (field p ''website'') \<and>
            getProviderAuth this i = Inr (auth_of p) \<and>
            getProviderModels_guarded this i = Inr (models_of p) \<and>
            getProviderWebsite_guarded this i = Inr (field p ''website'') \<and>
            getProviderAuth_guarded this i = Inr (auth_of p))"
proof (intro conjI impI)
  show "find_provider this i =
           Inr (case List.find (\<lambda>q. field q ''id'' = JStr i) (providers (registry this)) of
                  None \<Rightarrow> JUndefined | Some p \<Rightarrow> p)"
    by (rule find_provider_wf [OF wf])
next
  assume a: "providers (registry this) = pre @ p # post \<and> field p ''id'' = JStr i \<and>
          (\<forall>q\<in>set pre. field q ''id'' \<noteq> JStr i)"
  then have "List.find (\<lambda>q. field q ''id'' = JStr i) (pre @ p # post) = Some p"
    by (intro find_first) simp_all
  with a have f: "List.find (\<lambda>q. field q ''id'' = JStr i) (providers (registry this)) = Some p"
    by simp
  then show "find_provider this i = Inr p"
    by (simp add: find_provider_wf [OF wf] del: providers.simps)
  show "getProviderModels this i = Inr (models_of p)"
    by (rule accessors_found(1) [OF wf f])
  show "getProviderWebsite this i = Inr (field p ''website'')"
    by (rule accessors_found(2) [OF wf f])
  show "getProviderAuth this i = Inr (auth_of p)"
    by (rule accessors_found(3) [OF wf f])
  show "getProviderModels_guarded this i = Inr (models_of p)"
    by (simp add: guarded_loaded(1) [OF wf] accessors_found(1) [OF wf f])
  show "getProviderWebsite_guarded this i = Inr (field p ''website'')"
    by (simp add: guarded_loaded(2) [OF wf] accessors_found(2) [OF wf f])
  show "getProviderAuth_guarded this i = Inr (auth_of p)"
    by (simp add: guarded_loaded(3) [OF wf] accessors_found(3) [OF wf f])
qed

theorem lookup_first_match_witness:
  "wf_document duplicate_document \<and>
   find_provider \<lparr>registry = duplicate_document\<rparr> ''a''
     = Inr (JObj [(''id'', JStr ''a''), (''website'', JStr ''first'')]) \<and>
   getProviderWebsite \<lparr>registry = duplicate_document\<rparr> ''a'' = Inr (JStr ''first'') \<and>
   getProviderWebsite_guarded \<lparr>registry = duplicate_document\<rparr> ''a'' = Inr (JStr ''first'')"
proof -
  let ?h = "\<lparr>registry = duplicate_document\<rparr>"
  let ?b = "JObj [(''id'', JStr ''b'')]"
  let ?p = "JObj [(''id'', JStr ''a''), (''website'', JStr ''first'')]"
  let ?q = "JObj [(''id'', JStr ''a''), (''website'', JStr ''second'')]"
  have wf: "wf_document (registry ?h)" by (simp add: wf_duplicate)
  have d: "providers (registry ?h) = [?b] @ ?p # [?q] \<and> field ?p ''id'' = JStr ''a'' \<and>
           (\<forall>q\<in>set [?b]. field q ''id'' \<noteq> JStr ''a'')"
    by (simp add: duplicate_document_def)
  from lookup_first_match [OF wf, of "''a''" "[?b]" ?p "[?q]"] d
  have "find_provider ?h ''a'' = Inr ?p \<and>
        getProviderWebsite ?h ''a'' = Inr (field ?p ''website'') \<and>
        getProviderWebsite_guarded ?h ''a'' = Inr (field ?p ''website'')"
    by blast
  then show ?thesis by (simp add: wf_duplicate)
qed

text \<open>
  Claim C9. No accessor changes the document. Whatever sequence of accessor calls is made
  on an instance, failed calls among them, every cell that was on the heap before the
  calls holds afterwards what it held before: the calls only add cells (the fresh
  \<^verbatim>\<open>[]\<close> some of them answer with). On a closed heap, all that can be seen from the
  instance, its \<^verbatim>\<open>registry\<close> and the whole document below it, is the same after the
  calls as before, to every depth. Both copies.
\<close>

theorem accessors_read_only:
  "take (length h) (snd (run_calls call this cs h)) = h \<and>
   take (length h) (snd (run_calls call_guarded this cs h)) = h \<and>
   (closed_heap h \<and> ref_ok (length h) this \<longrightarrow>
      view n (snd (run_calls call this cs h)) this = view n h this \<and>
      view n (snd (run_calls call_guarded this cs h)) this = view n h this)"
proof -
  obtain ys where ys: "snd (run_calls call this cs h) = h @ ys"
    using run_calls_extends [of call this cs h] call_extends by blast
  obtain zs where zs: "snd (run_calls call_guarded this cs h) = h @ zs"
    using run_calls_extends [of call_guarded this cs h] call_guarded_extends
    by blast
  show ?thesis by (simp add: ys zs view_append)
qed

theorem accessors_read_only_witness:
  "closed_heap example_heap \<and>
   run_calls call_guarded (RRef 0)
       [GetProviderModels ''openai'', GetProviderAuth ''acme'', GetProviders] example_heap
     = ([Inr (RRef 4), Inl (Error (not_found_message ''acme'')), Inr (RRef 2)],
        example_heap @ [ArrayCell []]) \<and>
   view 4 (example_heap @ [ArrayCell []]) (RRef 0) = view 4 example_heap (RRef 0) \<and>
   view 4 example_heap (RRef 0) =
     JObj [(''registry'', JObj [(''providers'', JArr [
       JObj [(''id'', JStr ''openai''), (''website'', JStr ''https://openai.com'')]])])]"
proof -
  let ?cs = "[GetProviderModels ''openai'', GetProviderAuth ''acme'', GetProviders]"
  have c: "closed_heap example_heap"
    by (simp add: closed_heap_def example_heap_def)
  have r: "ref_ok (length example_heap) (RRef 0)"
    by (simp add: example_heap_def)
  have run: "run_calls call_guarded (RRef 0) ?cs example_heap
     = ([Inr (RRef 4), Inl (Error (not_found_message ''acme'')), Inr (RRef 2)],
        example_heap @ [ArrayCell []])"
    by (simp add: example_heap_def getProviderModels_guarded_on_heap_def
        getProviderModels_on_heap_def getProviderAuth_guarded_on_heap_def
        getProviderAuth_on_heap_def getProviders_guarded_on_heap_def find_provider_on_heap_def
        id_equals_ref_def new_array_def cell_at_def)
  have v: "view 4 example_heap (RRef 0) =
     JObj [(''registry'', JObj [(''providers'', JArr [
       JObj [(''id'', JStr ''openai''), (''website'', JStr ''https://openai.com'')]])])]"
    by (simp add: example_heap_def cell_at_def numeral_Bit0 eval_nat_numeral)
  from accessors_read_only [of example_heap "RRef 0" ?cs 4] c r
  have "view 4 (snd (run_calls call_guarded (RRef 0) ?cs example_heap)) (RRef 0)
          = view 4 example_heap (RRef 0)"
    by blast
  with run c v show ?thesis by simp
qed

end
